theory Spec2Isabelle
  imports Complex_Main "HOL-Library.Word"
begin

section \<open>Data model\<close>

text \<open>
  A \<open>Blob\<close> is a sequence of bytes. JavaScript numbers (\<open>Date.now()\<close>, \<open>expiresIn\<close>,
  \<open>modificationTime\<close>) are modelled as exact reals: NaN, infinities and rounding are left out.
\<close>

type_synonym blob = "8 word list"

datatype platform = Web | Ios | Android

text \<open>\<open>types.ts\<close>: interface \<open>CachedImage\<close>, the record kept in the IndexedDB object store.\<close>

record CachedImage =
  key :: string
  blob :: blob
  timestamp :: real
  expiresIn :: "real option"

text \<open>
  The strings the component keeps in \<open>imgUri\<close>: an object URL made by
  \<open>URL.createObjectURL\<close> (each call makes a new one, numbered here), a plain URI, or the
  native cache file path with its optional \<open>?<Date.now()>\<close> suffix.
\<close>

datatype handle = ObjectURL nat | Uri string | FileUri string "real option"

text \<open>Everything the code can throw: each is a rejected promise of the call that raised it.\<close>

datatype error = OpenFailed | TransactionFailed | FileSystemFailed | DownloadFailed

text \<open>
  What \<open>fetch(uri)\<close> does: it rejects, or it resolves to a response with a status and
  a body (\<open>None\<close>: \<open>response.blob()\<close> rejects).
\<close>

datatype net_result = NetworkError | Response nat "blob option"

text \<open>\<open>FileSystem.FileInfo\<close>, as \<open>getInfoAsync\<close> returns it.\<close>

record FileInfo =
  exists :: bool
  fsize :: nat
  modificationTime :: real

text \<open>
  The world outside the component: the singleton \<open>webCache\<close> (\<open>db\<close> is
  \<open>this.db \<noteq> null\<close>), the object store's records by key, the clock in milliseconds, the
  failures the browser or the file system may report (\<open>openFails\<close>: \<open>indexedDB.open\<close>
  fires \<open>onerror\<close>; \<open>txThrows\<close>: \<open>db.transaction\<close> throws; \<open>getFails\<close>,
  \<open>putFails\<close>, \<open>deleteFails\<close>: the request, or the delete's transaction, fires
  \<open>onerror\<close>; \<open>fsThrows\<close>: \<open>getInfoAsync\<close> and \<open>deleteAsync\<close> reject), the network,
  the log of the network requests issued, the live object URLs, and the native cache files
  (content and modification time in seconds).
\<close>

record world =
  db :: bool
  store :: "string \<rightharpoonup> CachedImage"
  clock :: real
  openFails :: bool
  txThrows :: bool
  getFails :: bool
  putFails :: bool
  deleteFails :: bool
  net :: "string \<Rightarrow> net_result"
  fetches :: "string list"
  urls :: "nat \<rightharpoonup> blob"
  nextUrl :: nat
  files :: "string \<rightharpoonup> blob \<times> real"
  fsThrows :: bool

text \<open>The props of \<open>CachedImage\<close> that the loading logic reads.\<close>

record props =
  uri :: string
  cacheKey :: string
  sourceExpiresIn :: "real option"
  lazy :: bool
  platformOS :: platform
  cacheDirectory :: string

text \<open>What happens to a component instance, in order.\<close>

datatype event =
    SetImgUri handle
  | SetIsLoading bool
  | SetHasError bool
  | AnimateImageLoad
  | Teardown
  | RevokeObjectURL handle

text \<open>
  A component instance: its four state variables, the \<open>componentIsMounted\<close> ref, the
  \<open>imgUri\<close> and \<open>previewUri\<close> that the effect's cleanup closure captured when the effect
  ran, and the trace of events. Teardown can only happen while the instance is suspended at
  an \<open>await\<close>: \<open>awaits\<close> counts the suspensions so far and \<open>unmountAt = Some n\<close> tears
  the instance down during suspension number \<open>n\<close>.
\<close>

record component =
  imgUri :: "handle option"
  previewUri :: "handle option"
  isLoading :: bool
  hasError :: bool
  componentIsMounted :: bool
  closureImgUri :: "handle option"
  closurePreviewUri :: "handle option"
  awaits :: nat
  unmountAt :: "nat option"
  trace :: "event list"

section \<open>JavaScript helpers\<close>

text \<open>Truthiness of an optional number: \<open>undefined\<close> and \<open>0\<close> are falsy.\<close>

definition truthy :: "real option \<Rightarrow> bool" where
  "truthy x = (case x of None \<Rightarrow> False | Some e \<Rightarrow> e \<noteq> 0)"

text \<open>\<open>response.ok\<close>: the status is in the range 200 to 299.\<close>

definition ok :: "nat \<Rightarrow> bool" where
  "ok status = (200 \<le> status \<and> status \<le> 299)"

definition createObjectURL :: "blob \<Rightarrow> world \<Rightarrow> handle \<times> world" where
  "createObjectURL b w =
     (ObjectURL (nextUrl w),
      w\<lparr>urls := (urls w)(nextUrl w \<mapsto> b), nextUrl := Suc (nextUrl w)\<rparr>)"

text \<open>\<open>s.startsWith("blob:")\<close>; every object URL does.\<close>

definition startsWithBlob :: "handle \<Rightarrow> bool" where
  "startsWithBlob h =
     (case h of ObjectURL n \<Rightarrow> True | Uri s \<Rightarrow> take 5 s = ''blob:'' | FileUri s t \<Rightarrow> take 5 s = ''blob:'')"

definition revokeObjectURL :: "handle \<Rightarrow> world \<Rightarrow> world" where
  "revokeObjectURL h w =
     (case h of ObjectURL n \<Rightarrow> w\<lparr>urls := (urls w)(n := None)\<rparr> | Uri s \<Rightarrow> w | FileUri s t \<Rightarrow> w)"

text \<open>The bytes a handle references, if it is a live object URL.\<close>

definition bytesOf :: "world \<Rightarrow> handle \<Rightarrow> blob option" where
  "bytesOf w h = (case h of ObjectURL n \<Rightarrow> urls w n | Uri s \<Rightarrow> None | FileUri s t \<Rightarrow> None)"

section \<open>webCache.ts: class WebImageCache\<close>

text \<open>
  \<open>sanitizeCacheKey\<close> (\<open>utils.ts\<close>) is a parameter of every function that calls it.
  Each \<open>async\<close> method returns its result, or the error its promise rejects with, and the
  world it leaves.
\<close>

definition init :: "world \<Rightarrow> error + world" where
  "init w =
     (if db w then Inr w
      else if openFails w then Inl OpenFailed
      else Inr (w\<lparr>db := True\<rparr>))"

definition deleteImage :: "(string \<Rightarrow> string) \<Rightarrow> world \<Rightarrow> string \<Rightarrow> (error + unit) \<times> world" where
  "deleteImage sanitizeCacheKey w k =
     (case init w of
        Inl e \<Rightarrow> (Inl e, w)
      | Inr w1 \<Rightarrow>
          (let sanitizedKey = sanitizeCacheKey k in
           if \<not> db w1 then (Inr (), w1)
           else if txThrows w1 then (Inl TransactionFailed, w1)
           else if deleteFails w1 then (Inr (), w1)
           else (Inr (), w1\<lparr>store := (store w1)(sanitizedKey := None)\<rparr>)))"

text \<open>
  In \<open>getImage\<close> the call \<open>this.deleteImage(sanitizedKey)\<close> is not awaited: its result
  and its rejection are dropped, and its transaction is queued before any later one.
\<close>

definition getImage :: "(string \<Rightarrow> string) \<Rightarrow> world \<Rightarrow> string \<Rightarrow> (error + handle option) \<times> world" where
  "getImage sanitizeCacheKey w k =
     (case init w of
        Inl e \<Rightarrow> (Inl e, w)
      | Inr w1 \<Rightarrow>
          (let sanitizedKey = sanitizeCacheKey k in
           if \<not> db w1 then (Inr None, w1)
           else if txThrows w1 then (Inl TransactionFailed, w1)
           else if getFails w1 then (Inr None, w1)
           else
             (case store w1 sanitizedKey of
                None \<Rightarrow> (Inr None, w1)
              | Some data \<Rightarrow>
                  if truthy (expiresIn data)
                     \<and> (clock w1 - timestamp data) / 1000 > the (expiresIn data)
                  then (Inr None, snd (deleteImage sanitizeCacheKey w1 sanitizedKey))
                  else (let (url, w2) = createObjectURL (blob data) w1 in (Inr (Some url), w2)))))"

definition saveImage ::
  "(string \<Rightarrow> string) \<Rightarrow> world \<Rightarrow> string \<Rightarrow> blob \<Rightarrow> real option \<Rightarrow> (error + handle option) \<times> world" where
  "saveImage sanitizeCacheKey w k b e =
     (case init w of
        Inl err \<Rightarrow> (Inl err, w)
      | Inr w1 \<Rightarrow>
          (let sanitizedKey = sanitizeCacheKey k in
           if \<not> db w1 then (Inr None, w1)
           else if txThrows w1 then (Inl TransactionFailed, w1)
           else
             (let data = \<lparr>key = sanitizedKey, blob = b, timestamp = clock w1, expiresIn = e\<rparr> in
              if putFails w1 then (Inr None, w1)
              else
                (let (url, w2) = createObjectURL b (w1\<lparr>store := (store w1)(key data \<mapsto> data)\<rparr>)
                 in (Inr (Some url), w2)))))"

text \<open>The body of the \<open>try\<close> block of \<open>downloadAndCache\<close>.\<close>

definition downloadAndCache_try ::
  "(string \<Rightarrow> string) \<Rightarrow> world \<Rightarrow> string \<Rightarrow> string \<Rightarrow> real option \<Rightarrow> (error + handle option) \<times> world" where
  "downloadAndCache_try sanitizeCacheKey w u k e =
     (let w1 = w\<lparr>fetches := fetches w @ [u]\<rparr> in
      case net w1 u of
        NetworkError \<Rightarrow> (Inl DownloadFailed, w1)
      | Response status body \<Rightarrow>
          if \<not> ok status then (Inr None, w1)
          else
            (case body of
               None \<Rightarrow> (Inl DownloadFailed, w1)
             | Some b \<Rightarrow> saveImage sanitizeCacheKey w1 k b e))"

text \<open>\<open>downloadAndCache\<close>: the \<open>catch\<close> logs the error and returns \<open>null\<close>.\<close>

definition downloadAndCache ::
  "(string \<Rightarrow> string) \<Rightarrow> world \<Rightarrow> string \<Rightarrow> string \<Rightarrow> real option \<Rightarrow> (error + handle option) \<times> world" where
  "downloadAndCache sanitizeCacheKey w u k e =
     (case downloadAndCache_try sanitizeCacheKey w u k e of
        (Inl err, w1) \<Rightarrow> (Inr None, w1)
      | (Inr r, w1) \<Rightarrow> (Inr r, w1))"

section \<open>expo-file-system, as the component uses it\<close>

text \<open>
  \<open>getInfoAsync\<close> reports a file that is there with its size and modification time
  (seconds); \<open>deleteAsync\<close> is called with \<open>idempotent: true\<close>; \<open>downloadAsync\<close>
  issues one network request, rejects when the request fails, and otherwise writes the body
  to the file and returns the status.
\<close>

definition getInfoAsync :: "world \<Rightarrow> string \<Rightarrow> error + FileInfo" where
  "getInfoAsync w path =
     (if fsThrows w then Inl FileSystemFailed
      else
        (case files w path of
           None \<Rightarrow> Inr \<lparr>exists = False, fsize = 0, modificationTime = 0\<rparr>
         | Some (content, mtime) \<Rightarrow>
             Inr \<lparr>exists = True, fsize = length content, modificationTime = mtime\<rparr>))"

definition deleteAsync :: "world \<Rightarrow> string \<Rightarrow> (error + unit) \<times> world" where
  "deleteAsync w path =
     (if fsThrows w then (Inl FileSystemFailed, w)
      else (Inr (), w\<lparr>files := (files w)(path := None)\<rparr>))"

definition downloadAsync :: "world \<Rightarrow> string \<Rightarrow> string \<Rightarrow> (error + nat) \<times> world" where
  "downloadAsync w u path =
     (let w1 = w\<lparr>fetches := fetches w @ [u]\<rparr> in
      case net w1 u of
        NetworkError \<Rightarrow> (Inl DownloadFailed, w1)
      | Response status body \<Rightarrow>
          (case body of
             None \<Rightarrow> (Inl DownloadFailed, w1)
           | Some b \<Rightarrow> (Inr status, w1\<lparr>files := (files w1)(path \<mapsto> (b, clock w1 / 1000))\<rparr>)))"

section \<open>The component CachedImage\<close>

subsection \<open>State setters, teardown and suspension\<close>

definition setImgUri :: "handle \<Rightarrow> component \<Rightarrow> component" where
  "setImgUri h c = c\<lparr>imgUri := Some h, trace := trace c @ [SetImgUri h]\<rparr>"

definition setIsLoading :: "bool \<Rightarrow> component \<Rightarrow> component" where
  "setIsLoading b c = c\<lparr>isLoading := b, trace := trace c @ [SetIsLoading b]\<rparr>"

definition setHasError :: "bool \<Rightarrow> component \<Rightarrow> component" where
  "setHasError b c = c\<lparr>hasError := b, trace := trace c @ [SetHasError b]\<rparr>"

text \<open>\<open>animateImageLoad\<close> starts the two fade animations; only the call is recorded.\<close>

definition animateImageLoad :: "component \<Rightarrow> component" where
  "animateImageLoad c = c\<lparr>trace := trace c @ [AnimateImageLoad]\<rparr>"

text \<open>
  The function the effect returns. It reads \<open>imgUri\<close> and \<open>previewUri\<close> from its
  closure: the values of the render in which the effect ran.
\<close>

definition revokeIfBlob :: "platform \<Rightarrow> handle option \<Rightarrow> component \<times> world \<Rightarrow> component \<times> world" where
  "revokeIfBlob os x cw =
     (case x of
        None \<Rightarrow> cw
      | Some h \<Rightarrow>
          if os = Web \<and> startsWithBlob h
          then ((fst cw)\<lparr>trace := trace (fst cw) @ [RevokeObjectURL h]\<rparr>, revokeObjectURL h (snd cw))
          else cw)"

definition cleanup :: "platform \<Rightarrow> component \<Rightarrow> world \<Rightarrow> component \<times> world" where
  "cleanup os c w =
     revokeIfBlob os (closurePreviewUri c)
       (revokeIfBlob os (closureImgUri c)
          (c\<lparr>componentIsMounted := False, trace := trace c @ [Teardown]\<rparr>, w))"

text \<open>One suspension at an \<open>await\<close>: the instance is torn down during it if so scheduled.\<close>

definition suspend :: "platform \<Rightarrow> component \<Rightarrow> world \<Rightarrow> component \<times> world" where
  "suspend os c w =
     (let c1 = c\<lparr>awaits := Suc (awaits c)\<rparr> in
      if unmountAt c = Some (awaits c) then cleanup os c1 w else (c1, w))"

subsection \<open>Web\<close>

definition loadImageWeb ::
  "(string \<Rightarrow> string) \<Rightarrow> props \<Rightarrow> component \<Rightarrow> world \<Rightarrow> (error + unit) \<times> component \<times> world" where
  "loadImageWeb sanitizeCacheKey p c w =
     (let (r, w1) = getImage sanitizeCacheKey w (cacheKey p);
          (c1, w2) = suspend (platformOS p) c w1
      in case r of
           Inl e \<Rightarrow> (Inl e, c1, w2)
         | Inr cachedUri \<Rightarrow>
             if cachedUri \<noteq> None \<and> componentIsMounted c1
             then (Inr (), animateImageLoad (setImgUri (the cachedUri) c1), w2)
             else if componentIsMounted c1
             then
               (let (r2, w3) = downloadAndCache sanitizeCacheKey w2 (uri p) (cacheKey p) (sourceExpiresIn p);
                    (c2, w4) = suspend (platformOS p) c1 w3
                in case r2 of
                     Inl e \<Rightarrow> (Inl e, c2, w4)
                   | Inr newUri \<Rightarrow>
                       if componentIsMounted c2
                       then
                         (case newUri of
                            Some h \<Rightarrow> (Inr (), animateImageLoad (setImgUri h c2), w4)
                          | None \<Rightarrow> (Inr (), animateImageLoad (setImgUri (Uri (uri p)) c2), w4))
                       else (Inr (), c2, w4))
             else (Inr (), c1, w2))"

subsection \<open>Native\<close>

definition fileURI :: "(string \<Rightarrow> string) \<Rightarrow> props \<Rightarrow> string" where
  "fileURI sanitizeCacheKey p =
     (if platformOS p = Web then []
      else cacheDirectory p @ sanitizeCacheKey (cacheKey p) @ ''.png'')"

definition isImageExpired :: "props \<Rightarrow> world \<Rightarrow> FileInfo \<Rightarrow> bool" where
  "isImageExpired p w metadata =
     (exists metadata \<and> truthy (sourceExpiresIn p)
      \<and> clock w / 1000 - modificationTime metadata > the (sourceExpiresIn p))"

definition shouldDownloadImage :: "props \<Rightarrow> world \<Rightarrow> FileInfo \<Rightarrow> bool" where
  "shouldDownloadImage p w metadata =
     (\<not> exists metadata \<or> fsize metadata = 0 \<or> isImageExpired p w metadata)"

definition handleSuccessfulDownload ::
  "(string \<Rightarrow> string) \<Rightarrow> props \<Rightarrow> nat \<Rightarrow> component \<Rightarrow> world \<Rightarrow> (error + unit) \<times> component \<times> world" where
  "handleSuccessfulDownload sanitizeCacheKey p status c w =
     (if \<not> componentIsMounted c then (Inr (), c, w)
      else if status = 200
      then (Inr (), animateImageLoad (setImgUri (FileUri (fileURI sanitizeCacheKey p) (Some (clock w))) c), w)
      else
        (let (r, w1) = deleteAsync w (fileURI sanitizeCacheKey p);
             (c1, w2) = suspend (platformOS p) c w1
         in case r of
              Inl e \<Rightarrow> (Inl e, c1, w2)
            | Inr u \<Rightarrow> (Inr (), animateImageLoad (setImgUri (Uri (uri p)) c1), w2)))"

definition downloadImage ::
  "(string \<Rightarrow> string) \<Rightarrow> props \<Rightarrow> component \<Rightarrow> world \<Rightarrow> (error + unit) \<times> component \<times> world" where
  "downloadImage sanitizeCacheKey p c w =
     (if \<not> componentIsMounted c then (Inr (), c, w)
      else
        (let (r, w1) = downloadAsync w (uri p) (fileURI sanitizeCacheKey p);
             (c1, w2) = suspend (platformOS p) c w1
         in case r of
              Inl e \<Rightarrow> (Inl e, c1, w2)
            | Inr status \<Rightarrow> handleSuccessfulDownload sanitizeCacheKey p status c1 w2))"

definition handleExpiredImage ::
  "(string \<Rightarrow> string) \<Rightarrow> props \<Rightarrow> component \<Rightarrow> world \<Rightarrow> (error + unit) \<times> component \<times> world" where
  "handleExpiredImage sanitizeCacheKey p c w =
     (let (r, w1) = deleteAsync w (fileURI sanitizeCacheKey p);
          (c1, w2) = suspend (platformOS p) c w1
      in case r of
           Inl e \<Rightarrow> (Inl e, c1, w2)
         | Inr u \<Rightarrow> downloadImage sanitizeCacheKey p c1 w2)"

definition loadImageNative ::
  "(string \<Rightarrow> string) \<Rightarrow> props \<Rightarrow> component \<Rightarrow> world \<Rightarrow> (error + unit) \<times> component \<times> world" where
  "loadImageNative sanitizeCacheKey p c w =
     (let r = getInfoAsync w (fileURI sanitizeCacheKey p);
          (c1, w1) = suspend (platformOS p) c w
      in case r of
           Inl e \<Rightarrow> (Inl e, c1, w1)
         | Inr metadata \<Rightarrow>
             if \<not> shouldDownloadImage p w1 metadata
             then (Inr (), (if componentIsMounted c1 then animateImageLoad c1 else c1), w1)
             else if isImageExpired p w1 metadata
             then handleExpiredImage sanitizeCacheKey p c1 w1
             else downloadImage sanitizeCacheKey p c1 w1)"

subsection \<open>loadImageAsync, the effect and the render callbacks\<close>

definition loadImageAsync ::
  "(string \<Rightarrow> string) \<Rightarrow> props \<Rightarrow> component \<Rightarrow> world \<Rightarrow> component \<times> world" where
  "loadImageAsync sanitizeCacheKey p c w =
     (let c0 = setHasError False (setIsLoading True c);
          (r, c1, w1) =
            (if platformOS p = Web then loadImageWeb sanitizeCacheKey p c0 w
             else loadImageNative sanitizeCacheKey p c0 w)
      in case r of
           Inl e \<Rightarrow>
             (let c2 = setHasError True c1;
                  c3 = (if componentIsMounted c2 then setImgUri (Uri (uri p)) c2 else c2)
              in (setIsLoading False c3, w1))
         | Inr u \<Rightarrow> (setIsLoading False c1, w1))"

text \<open>The first state of an instance: the initial values of \<open>useState\<close> and \<open>useRef\<close>.\<close>

definition initialComponent :: "(string \<Rightarrow> string) \<Rightarrow> props \<Rightarrow> handle option \<Rightarrow> nat option \<Rightarrow> component" where
  "initialComponent sanitizeCacheKey p preview teardownAt =
     \<lparr>imgUri = (if platformOS p = Web then None else Some (FileUri (fileURI sanitizeCacheKey p) None)),
      previewUri = preview,
      isLoading = True,
      hasError = False,
      componentIsMounted = False,
      closureImgUri = None,
      closurePreviewUri = None,
      awaits = 0,
      unmountAt = teardownAt,
      trace = []\<rparr>"

text \<open>
  The body of the effect: it marks the instance mounted, its cleanup closure captures the
  current \<open>imgUri\<close> and \<open>previewUri\<close>, and it starts the load unless lazy loading
  defers it. (The preview branch never runs on mount: \<open>previewUri\<close> starts as
  \<open>preview\<close>.)
\<close>

definition shouldStartLoad :: "bool \<Rightarrow> bool \<Rightarrow> bool" where
  "shouldStartLoad isLazy visible = (\<not> isLazy \<or> visible)"

definition effect :: "(string \<Rightarrow> string) \<Rightarrow> props \<Rightarrow> bool \<Rightarrow> component \<Rightarrow> world \<Rightarrow> component \<times> world" where
  "effect sanitizeCacheKey p visible c w =
     (let c1 = c\<lparr>componentIsMounted := True,
                 closureImgUri := imgUri c, closurePreviewUri := previewUri c\<rparr>
      in if shouldStartLoad (lazy p) visible
         then loadImageAsync sanitizeCacheKey p c1 w
         else (c1, w))"

text \<open>The \<open>onError\<close> callback of the rendered image: the image failed to render.\<close>

definition onError :: "component \<Rightarrow> component" where
  "onError c = (if componentIsMounted c then setHasError True c else c)"

section \<open>hooks/useIntersectionObserver.ts\<close>

record observerState =
  isIntersecting :: bool
  observing :: bool

text \<open>
  The hook's effect, given the \<open>enabled\<close> option, the platform and whether
  \<open>targetRef.current\<close> is set; the state starts as \<open>useState(false)\<close>.
\<close>

definition initialObserver :: observerState where
  "initialObserver = \<lparr>isIntersecting = False, observing = False\<rparr>"

definition useIntersectionObserver_effect :: "bool \<Rightarrow> platform \<Rightarrow> bool \<Rightarrow> observerState \<Rightarrow> observerState" where
  "useIntersectionObserver_effect enabled os hasTarget s =
     (if \<not> enabled \<or> os \<noteq> Web \<or> \<not> hasTarget
      then (if \<not> enabled \<or> os \<noteq> Web then s\<lparr>isIntersecting := True\<rparr> else s)
      else s\<lparr>observing := True\<rparr>)"

text \<open>The observer's callback, with the entry's \<open>isIntersecting\<close>.\<close>

definition observerCallback :: "bool \<Rightarrow> observerState \<Rightarrow> observerState" where
  "observerCallback entryIsIntersecting s = s\<lparr>isIntersecting := entryIsIntersecting\<rparr>"

section \<open>Notions used in the statements\<close>

text \<open>
  The expiry test \<open>getImage\<close> makes on a record it has read, at time \<open>now\<close>
  (milliseconds): \<open>data.expiresIn\<close> is truthy and the elapsed seconds exceed it.
\<close>

definition entryExpired :: "CachedImage \<Rightarrow> real \<Rightarrow> bool" where
  "entryExpired data now =
     (truthy (expiresIn data) \<and> (now - timestamp data) / 1000 > the (expiresIn data))"

text \<open>The network request fails: it is rejected, or it is answered with a status that is not ok.\<close>

definition fetchFails :: "world \<Rightarrow> string \<Rightarrow> bool" where
  "fetchFails w u =
     (case net w u of NetworkError \<Rightarrow> True | Response status body \<Rightarrow> \<not> ok status)"

section \<open>Concrete instances\<close>

text \<open>
  A sanitizer that drops slashes, a network that serves one image, a world with an empty
  cache in which nothing fails, the props of the scenario of the specification, a cache
  record ten seconds old, and a mounted instance.
\<close>

definition stripSlashes :: "string \<Rightarrow> string" where
  "stripSlashes k = filter (\<lambda>ch. ch \<noteq> CHR ''/'') k"

definition exampleNet :: "string \<Rightarrow> net_result" where
  "exampleNet u =
     (if u = ''https://x/img.png'' then Response 200 (Some [1, 2, 3])
      else if u = ''https://x/gone.png'' then Response 404 (Some [4, 0, 4])
      else NetworkError)"

definition exampleWorld :: world where
  "exampleWorld =
     \<lparr>db = False, store = Map.empty, clock = 1000000, openFails = False, txThrows = False,
      getFails = False, putFails = False, deleteFails = False, net = exampleNet,
      fetches = [], urls = Map.empty, nextUrl = 0, files = Map.empty, fsThrows = False\<rparr>"

definition exampleProps :: props where
  "exampleProps =
     \<lparr>uri = ''https://x/img.png'', cacheKey = ''k/1'', sourceExpiresIn = Some 60, lazy = False,
      platformOS = Web, cacheDirectory = ''/cache/''\<rparr>"

definition exampleEntry :: CachedImage where
  "exampleEntry = \<lparr>key = ''k1'', blob = [7, 8, 9], timestamp = 990000, expiresIn = Some 60\<rparr>"

definition seededWorld :: world where
  "seededWorld = exampleWorld\<lparr>db := True, store := [''k1'' \<mapsto> exampleEntry]\<rparr>"

definition mountedComponent :: "props \<Rightarrow> component" where
  "mountedComponent p = (initialComponent stripSlashes p None None)\<lparr>componentIsMounted := True\<rparr>"

definition nativeProps :: props where
  "nativeProps = exampleProps\<lparr>platformOS := Ios\<rparr>"

text \<open>
  A world, 110 seconds later, in which both the cache record and the native cache file of
  the key are older than sixty seconds; and one whose native cache file is empty and new.
\<close>

definition staleWorld :: world where
  "staleWorld =
     seededWorld\<lparr>clock := 1100000, files := [''/cache/k1.png'' \<mapsto> ([7, 8, 9], 900)]\<rparr>"

definition emptyFileWorld :: world where
  "emptyFileWorld = exampleWorld\<lparr>files := [''/cache/k1.png'' \<mapsto> ([], 999)]\<rparr>"

text \<open>
  A world whose cache record is fifty seconds old; one whose native cache file is ten
  seconds old; and one whose native cache file is empty and a hundred seconds old.
\<close>

definition agingWorld :: world where
  "agingWorld = exampleWorld\<lparr>db := True, store := [''k1'' \<mapsto> exampleEntry\<lparr>timestamp := 950000\<rparr>]\<rparr>"

definition cachedFileWorld :: world where
  "cachedFileWorld = exampleWorld\<lparr>files := [''/cache/k1.png'' \<mapsto> ([7, 8, 9], 990)]\<rparr>"

definition oldEmptyFileWorld :: world where
  "oldEmptyFileWorld = exampleWorld\<lparr>files := [''/cache/k1.png'' \<mapsto> ([], 900)]\<rparr>"

section \<open>The cache operations when the storage works\<close>

lemma init_ready: "db w \<or> \<not> openFails w \<Longrightarrow> init w = Inr (w\<lparr>db := True\<rparr>)"
  by (cases w) (auto simp: init_def)

lemma getImage_ready:
  assumes "db w \<or> \<not> openFails w" "\<not> txThrows w" "\<not> getFails w"
  shows "getImage san w k =
     (case store w (san k) of
        None \<Rightarrow> (Inr None, w\<lparr>db := True\<rparr>)
      | Some data \<Rightarrow>
          if entryExpired data (clock w)
          then (Inr None,
                if deleteFails w then w\<lparr>db := True\<rparr>
                else w\<lparr>db := True, store := (store w)(san (san k) := None)\<rparr>)
          else (Inr (Some (ObjectURL (nextUrl w))),
                w\<lparr>db := True, urls := (urls w)(nextUrl w \<mapsto> blob data), nextUrl := Suc (nextUrl w)\<rparr>))"
  using assms
  by (auto simp: getImage_def init_ready deleteImage_def createObjectURL_def init_def Let_def entryExpired_def
           split: option.splits)

lemma saveImage_ready:
  assumes "db w \<or> \<not> openFails w" "\<not> txThrows w" "\<not> putFails w"
  shows "saveImage san w k b e =
     (Inr (Some (ObjectURL (nextUrl w))),
      w\<lparr>db := True,
        store := (store w)(san k \<mapsto> \<lparr>key = san k, blob = b, timestamp = clock w, expiresIn = e\<rparr>),
        urls := (urls w)(nextUrl w \<mapsto> b), nextUrl := Suc (nextUrl w)\<rparr>)"
  using assms
  by (auto simp: saveImage_def init_ready createObjectURL_def Let_def)

lemma downloadAndCache_total: "\<exists>r. fst (downloadAndCache san w u k e) = Inr r"
  by (simp add: downloadAndCache_def split: prod.splits sum.splits)

lemma suspend_none: "unmountAt c = None \<Longrightarrow> suspend os c w = (c\<lparr>awaits := Suc (awaits c)\<rparr>, w)"
  by (simp add: suspend_def)

lemmas setters = setImgUri_def setIsLoading_def setHasError_def animateImageLoad_def



lemma web_lookup_none:
  assumes web: "platformOS p = Web"
    and mounted: "componentIsMounted c" "unmountAt c = None"
    and g: "getImage san w (cacheKey p) = (Inr None, w1)"
  shows "loadImageAsync san p c w =
     (case downloadAndCache san w1 (uri p) (cacheKey p) (sourceExpiresIn p) of
        (r, w') \<Rightarrow>
          (let h = (case r of Inr (Some h) \<Rightarrow> h | _ \<Rightarrow> Uri (uri p)) in
           (c\<lparr>imgUri := Some h, isLoading := False, hasError := False,
              awaits := Suc (Suc (awaits c)),
              trace := trace c @ [SetIsLoading True, SetHasError False, SetImgUri h, AnimateImageLoad, SetIsLoading False]\<rparr>, w')))"
  using assms downloadAndCache_total[of san w1 "uri p" "cacheKey p" "sourceExpiresIn p"]
  by (auto simp add: loadImageAsync_def loadImageWeb_def suspend_none setters Let_def
       split: prod.splits sum.splits option.splits)



lemma getImage_no_valid_entry:
  assumes "db w \<or> \<not> openFails w" "\<not> txThrows w" "\<not> getFails w"
    and "\<forall>data. store w (san k) = Some data \<longrightarrow> entryExpired data (clock w)"
  shows "fst (getImage san w k) = Inr None"
  using assms
  by (auto simp: getImage_ready split: option.splits)

lemma fetchFails_downloadAndCache:
  assumes "fetchFails w u"
  shows "downloadAndCache san w u k e = (Inr None, w\<lparr>fetches := fetches w @ [u]\<rparr>)"
  using assms
  by (auto simp: fetchFails_def downloadAndCache_def downloadAndCache_try_def split: net_result.splits)

lemma web_fallback:
  assumes web: "platformOS p = Web"
    and mounted: "componentIsMounted c" "unmountAt c = None"
    and ready: "db w \<or> \<not> openFails w" "\<not> txThrows w" "\<not> getFails w"
    and novalid: "\<forall>data. store w (san (cacheKey p)) = Some data \<longrightarrow> entryExpired data (clock w)"
    and fails: "fetchFails w (uri p)"
  shows "loadImageAsync san p c w =
      (c\<lparr>imgUri := Some (Uri (uri p)), isLoading := False, hasError := False,
              awaits := Suc (Suc (awaits c)),
              trace := trace c @ [SetIsLoading True, SetHasError False, SetImgUri (Uri (uri p)),
                 AnimateImageLoad, SetIsLoading False]\<rparr>,
       (snd (getImage san w (cacheKey p)))\<lparr>fetches := fetches w @ [uri p]\<rparr>)"
proof -
  define w1 where "w1 = snd (getImage san w (cacheKey p))"
  have g: "getImage san w (cacheKey p) = (Inr None, w1)"
    using getImage_no_valid_entry[where san=san, OF ready novalid]
    by (simp add: w1_def prod_eq_iff)
  have w1: "net w1 = net w" "fetches w1 = fetches w"
    using novalid unfolding w1_def
    by (auto simp: getImage_ready[OF ready] split: option.splits)
  have f1: "fetchFails w1 (uri p)"
    using fails by (simp add: fetchFails_def w1)
  show ?thesis
    by (simp add: web_lookup_none[where san=san, OF web mounted g] fetchFails_downloadAndCache[OF f1]
          Let_def w1 w1_def[symmetric])
qed

lemma expired_read_deletes:
  assumes ready: "db w \<or> \<not> openFails w" "\<not> txThrows w" "\<not> getFails w"
    and del: "\<not> deleteFails w" "san (san k) = san k"
    and novalid: "\<forall>data. store w (san k) = Some data \<longrightarrow> entryExpired data (clock w)"
  shows "store (snd (getImage san w k)) (san k) = None"
  using novalid del
  by (auto simp: getImage_ready[OF ready] split: option.splits)

section \<open>The native loader when the file system works\<close>

lemmas native_defs = loadImageAsync_def loadImageNative_def handleExpiredImage_def downloadImage_def
  handleSuccessfulDownload_def deleteAsync_def downloadAsync_def

lemma native_status_not_200:
  assumes native: "platformOS p \<noteq> Web"
    and mounted: "componentIsMounted c" "unmountAt c = None"
    and fs: "\<not> fsThrows w"
    and info: "getInfoAsync w (fileURI san p) = Inr md" "shouldDownloadImage p w md"
    and resp: "net w (uri p) = Response s (Some body)" "s \<noteq> 200"
  shows "imgUri (fst (loadImageAsync san p c w)) = Some (Uri (uri p))"
    and "files (snd (loadImageAsync san p c w)) (fileURI san p) = None"
    and "fetches (snd (loadImageAsync san p c w)) = fetches w @ [uri p]"
    and "\<not> hasError (fst (loadImageAsync san p c w))"
  using assms
  by (simp_all add: native_defs suspend_none setters Let_def)

lemma native_download_rejected:
  assumes native: "platformOS p \<noteq> Web"
    and mounted: "componentIsMounted c" "unmountAt c = None"
    and fs: "\<not> fsThrows w"
    and info: "getInfoAsync w (fileURI san p) = Inr md" "shouldDownloadImage p w md"
    and resp: "net w (uri p) = NetworkError"
  shows "imgUri (fst (loadImageAsync san p c w)) = Some (Uri (uri p))"
    and "hasError (fst (loadImageAsync san p c w))"
    and "fetches (snd (loadImageAsync san p c w)) = fetches w @ [uri p]"
  using assms
  by (simp_all add: native_defs suspend_none setters Let_def)

lemma native_needs_download_fetches_once:
  assumes native: "platformOS p \<noteq> Web"
    and mounted: "componentIsMounted c" "unmountAt c = None"
    and fs: "\<not> fsThrows w"
    and info: "getInfoAsync w (fileURI san p) = Inr md" "shouldDownloadImage p w md"
  shows "fetches (snd (loadImageAsync san p c w)) = fetches w @ [uri p]"
  using assms
  by (simp add: native_defs suspend_none setters Let_def split: net_result.splits option.splits)

lemma native_expired_is_delete_then_miss:
  assumes mounted: "unmountAt c = None"
    and fs: "\<not> fsThrows w"
    and info: "getInfoAsync w (fileURI san p) = Inr md" "isImageExpired p w md"
  shows "loadImageNative san p c w =
           downloadImage san p (c\<lparr>awaits := Suc (Suc (awaits c))\<rparr>)
             (w\<lparr>files := (files w)(fileURI san p := None)\<rparr>)"
  using assms
  by (simp add: loadImageNative_def handleExpiredImage_def deleteAsync_def shouldDownloadImage_def
        suspend_none Let_def)

lemma native_plain_miss:
  assumes mounted: "unmountAt c = None"
    and info: "getInfoAsync w (fileURI san p) = Inr md" "\<not> exists md \<or> fsize md = 0"
       "\<not> isImageExpired p w md"
  shows "loadImageNative san p c w = downloadImage san p (c\<lparr>awaits := Suc (awaits c)\<rparr>) w"
  using assms
  by (auto simp add: loadImageNative_def shouldDownloadImage_def suspend_none Let_def)

section \<open>Who sets the error flag\<close>

lemma revokeIfBlob_hasError: "hasError (fst (revokeIfBlob os x cw)) = hasError (fst cw)"
  by (simp add: revokeIfBlob_def split: option.splits)

lemma suspend_hasError: "suspend os c w = (c1, w1) \<Longrightarrow> hasError c1 = hasError c"
  by (auto simp: suspend_def cleanup_def Let_def prod_eq_iff revokeIfBlob_hasError split: if_splits)

lemma loadImageWeb_hasError: "hasError (fst (snd (loadImageWeb san p c w))) = hasError c"
  by (auto simp: loadImageWeb_def setters Let_def dest!: suspend_hasError
      split: prod.splits sum.splits option.splits)

lemma handleSuccessfulDownload_hasError:
  "hasError (fst (snd (handleSuccessfulDownload san p status c w))) = hasError c"
  by (auto simp: handleSuccessfulDownload_def setters Let_def dest!: suspend_hasError
      split: prod.splits sum.splits)

lemma downloadImage_hasError: "hasError (fst (snd (downloadImage san p c w))) = hasError c"
  by (auto simp: downloadImage_def handleSuccessfulDownload_hasError Let_def dest!: suspend_hasError
      split: prod.splits sum.splits)

lemma handleExpiredImage_hasError: "hasError (fst (snd (handleExpiredImage san p c w))) = hasError c"
  by (auto simp: handleExpiredImage_def downloadImage_hasError Let_def dest!: suspend_hasError
      split: prod.splits sum.splits)

lemma loadImageNative_hasError: "hasError (fst (snd (loadImageNative san p c w))) = hasError c"
  by (auto simp: loadImageNative_def downloadImage_hasError handleExpiredImage_hasError setters Let_def
      dest!: suspend_hasError split: prod.splits sum.splits)

lemma loadImageAsync_hasError:
  "hasError (fst (loadImageAsync san p c w)) =
     (\<exists>e. fst (if platformOS p = Web
               then loadImageWeb san p (setHasError False (setIsLoading True c)) w
               else loadImageNative san p (setHasError False (setIsLoading True c)) w) = Inl e)"
proof (cases "platformOS p = Web")
  case True
  obtain r c1 w1 where l: "loadImageWeb san p (setHasError False (setIsLoading True c)) w = (r, c1, w1)"
    by (metis prod_cases3)
  have "hasError c1 = hasError (setHasError False (setIsLoading True c))"
    using loadImageWeb_hasError[of san p "setHasError False (setIsLoading True c)" w]
    unfolding l by simp
  then have "hasError c1 = False"
    by (simp add: setters)
  then show ?thesis
    using True
    by (cases r) (simp_all only: loadImageAsync_def Let_def l if_True prod.case sum.case fst_conv,
        simp_all add: setters)
next
  case False
  obtain r c1 w1 where l: "loadImageNative san p (setHasError False (setIsLoading True c)) w = (r, c1, w1)"
    by (metis prod_cases3)
  have "hasError c1 = hasError (setHasError False (setIsLoading True c))"
    using loadImageNative_hasError[of san p "setHasError False (setIsLoading True c)" w]
    unfolding l by simp
  then have "hasError c1 = False"
    by (simp add: setters)
  then show ?thesis
    using False
    by (cases r) (simp_all only: loadImageAsync_def Let_def l if_False prod.case sum.case fst_conv,
        simp_all add: setters)
qed

section \<open>What a suspension leaves alone\<close>





lemma native_expired_dispatch:
  assumes mounted: "unmountAt c = None"
    and info: "getInfoAsync w (fileURI san p) = Inr md" "isImageExpired p w md"
  shows "loadImageNative san p c w = handleExpiredImage san p (c\<lparr>awaits := Suc (awaits c)\<rparr>) w"
  using assms
  by (simp add: loadImageNative_def shouldDownloadImage_def suspend_none Let_def)

section \<open>The claims\<close>

lemmas examples = stripSlashes_def exampleNet_def exampleWorld_def exampleProps_def exampleEntry_def
  seededWorld_def mountedComponent_def initialComponent_def nativeProps_def staleWorld_def
  emptyFileWorld_def agingWorld_def cachedFileWorld_def oldEmptyFileWorld_def

lemmas web_defs = loadImageAsync_def loadImageWeb_def getImage_def init_def deleteImage_def
  saveImage_def downloadAndCache_def downloadAndCache_try_def createObjectURL_def suspend_def
  cleanup_def revokeIfBlob_def




text \<open>
  C2, as the claim states it, fails on a record whose \<open>expiresIn\<close> is \<open>0\<close>: the field is
  set and five seconds have elapsed, yet \<open>getImage\<close> hands out the blob and keeps the record.
\<close>

theorem zero_expiresIn_is_not_expired:
  "expiresIn (exampleEntry\<lparr>timestamp := 995000, expiresIn := Some 0\<rparr>) = Some 0
   \<and> (clock exampleWorld - timestamp (exampleEntry\<lparr>timestamp := 995000, expiresIn := Some 0\<rparr>)) / 1000 > 0
   \<and> fst (getImage stripSlashes
        (exampleWorld\<lparr>store := [''k1'' \<mapsto> exampleEntry\<lparr>timestamp := 995000, expiresIn := Some 0\<rparr>]\<rparr>) ''k/1'')
       = Inr (Some (ObjectURL 0))
   \<and> store (snd (getImage stripSlashes
        (exampleWorld\<lparr>store := [''k1'' \<mapsto> exampleEntry\<lparr>timestamp := 995000, expiresIn := Some 0\<rparr>]\<rparr>) ''k/1'')) ''k1''
       = Some (exampleEntry\<lparr>timestamp := 995000, expiresIn := Some 0\<rparr>)"
  by (simp add: getImage_def init_def createObjectURL_def truthy_def examples Let_def)

text \<open>
  C2, amended. A record read from a store that opens and reads is treated as expired (the
  read returns \<open>null\<close>) if and only if its \<open>expiresIn\<close> is set, is not \<open>0\<close>, and the elapsed
  seconds since its timestamp exceed it; the expired read also deletes the record (when the
  delete request succeeds and sanitizing is idempotent on the key). On native the file is
  expired under the same test against its modification time, and an expired read deletes the
  file and then does what a miss does: \<open>downloadImage\<close>.
\<close>

theorem expiry_on_read:
  assumes ready: "db w \<or> \<not> openFails w" "\<not> txThrows w" "\<not> getFails w"
    and present: "store w (san k) = Some data"
  shows "(fst (getImage san w k) = Inr None
            \<longleftrightarrow> (\<exists>e. expiresIn data = Some e \<and> e \<noteq> 0 \<and> (clock w - timestamp data) / 1000 > e))
       \<and> (fst (getImage san w k) = Inr None \<and> \<not> deleteFails w \<and> san (san k) = san k
            \<longrightarrow> store (snd (getImage san w k)) (san k) = None)
       \<and> (isImageExpired p w md
            \<longleftrightarrow> exists md \<and> (\<exists>e. sourceExpiresIn p = Some e \<and> e \<noteq> 0
                                   \<and> clock w / 1000 - modificationTime md > e))
       \<and> (unmountAt c = None \<and> \<not> fsThrows w \<and> getInfoAsync w (fileURI san p) = Inr md
            \<and> isImageExpired p w md
            \<longrightarrow> loadImageNative san p c w =
                  downloadImage san p (c\<lparr>awaits := Suc (Suc (awaits c))\<rparr>)
                    (w\<lparr>files := (files w)(fileURI san p := None)\<rparr>))"
proof (intro conjI impI)
  have ex: "entryExpired data (clock w)
     \<longleftrightarrow> (\<exists>e. expiresIn data = Some e \<and> e \<noteq> 0 \<and> (clock w - timestamp data) / 1000 > e)"
    by (auto simp: entryExpired_def truthy_def split: option.splits)
  show "fst (getImage san w k) = Inr None
            \<longleftrightarrow> (\<exists>e. expiresIn data = Some e \<and> e \<noteq> 0 \<and> (clock w - timestamp data) / 1000 > e)"
    unfolding ex[symmetric] by (simp add: getImage_ready[OF ready] present)
  show "isImageExpired p w md
            \<longleftrightarrow> exists md \<and> (\<exists>e. sourceExpiresIn p = Some e \<and> e \<noteq> 0
                                   \<and> clock w / 1000 - modificationTime md > e)"
    by (auto simp: isImageExpired_def truthy_def split: option.splits)
next
  assume "fst (getImage san w k) = Inr None \<and> \<not> deleteFails w \<and> san (san k) = san k"
  then show "store (snd (getImage san w k)) (san k) = None"
    by (auto simp: getImage_ready[OF ready] present split: if_splits)
next
  assume "unmountAt c = None \<and> \<not> fsThrows w \<and> getInfoAsync w (fileURI san p) = Inr md
            \<and> isImageExpired p w md"
  then show "loadImageNative san p c w =
                  downloadImage san p (c\<lparr>awaits := Suc (Suc (awaits c))\<rparr>)
                    (w\<lparr>files := (files w)(fileURI san p := None)\<rparr>)"
    by (simp add: native_expired_is_delete_then_miss)
qed

theorem expiry_on_read_witness:
  "store staleWorld (stripSlashes ''k/1'') = Some exampleEntry
   \<and> expiresIn exampleEntry = Some 60 \<and> (clock staleWorld - timestamp exampleEntry) / 1000 > 60
   \<and> fst (getImage stripSlashes staleWorld ''k/1'') = Inr None
   \<and> \<not> deleteFails staleWorld \<and> stripSlashes (stripSlashes ''k/1'') = stripSlashes ''k/1''
   \<and> store (snd (getImage stripSlashes staleWorld ''k/1'')) (stripSlashes ''k/1'') = None
   \<and> getInfoAsync staleWorld (fileURI stripSlashes nativeProps)
        = Inr \<lparr>exists = True, fsize = 3, modificationTime = 900\<rparr>
   \<and> isImageExpired nativeProps staleWorld \<lparr>exists = True, fsize = 3, modificationTime = 900\<rparr>
   \<and> loadImageNative stripSlashes nativeProps (mountedComponent nativeProps) staleWorld =
        downloadImage stripSlashes nativeProps
          ((mountedComponent nativeProps)\<lparr>awaits := Suc (Suc (awaits (mountedComponent nativeProps)))\<rparr>)
          (staleWorld\<lparr>files := (files staleWorld)(fileURI stripSlashes nativeProps := None)\<rparr>)"
proof -
  let ?md = "\<lparr>exists = True, fsize = 3, modificationTime = 900\<rparr>"
  have ready: "db staleWorld \<or> \<not> openFails staleWorld" "\<not> txThrows staleWorld" "\<not> getFails staleWorld"
    by (simp_all add: examples)
  have present: "store staleWorld (stripSlashes ''k/1'') = Some exampleEntry"
    by (simp add: examples)
  have old: "expiresIn exampleEntry = Some 60" "(60::real) \<noteq> 0"
    "(clock staleWorld - timestamp exampleEntry) / 1000 > 60"
    by (simp_all add: examples)
  have del: "\<not> deleteFails staleWorld" "stripSlashes (stripSlashes ''k/1'') = stripSlashes ''k/1''"
    by (simp_all add: examples)
  have info: "getInfoAsync staleWorld (fileURI stripSlashes nativeProps) = Inr ?md"
    by (simp add: getInfoAsync_def fileURI_def examples)
  have fs: "unmountAt (mountedComponent nativeProps) = None" "\<not> fsThrows staleWorld"
    by (simp_all add: examples)
  have oldfile: "exists ?md" "sourceExpiresIn nativeProps = Some 60"
    "clock staleWorld / 1000 - modificationTime ?md > 60"
    by (simp_all add: examples)
  note t = expiry_on_read[where san=stripSlashes and k="''k/1''" and p=nativeProps and md="?md"
      and c="mountedComponent nativeProps", OF ready present]
  have g: "fst (getImage stripSlashes staleWorld ''k/1'') = Inr None"
    using t old by blast
  have s: "store (snd (getImage stripSlashes staleWorld ''k/1'')) (stripSlashes ''k/1'') = None"
    using t g del by blast
  have e: "isImageExpired nativeProps staleWorld ?md"
    using t oldfile old(2) by blast
  have n: "loadImageNative stripSlashes nativeProps (mountedComponent nativeProps) staleWorld =
        downloadImage stripSlashes nativeProps
          ((mountedComponent nativeProps)\<lparr>awaits := Suc (Suc (awaits (mountedComponent nativeProps)))\<rparr>)
          (staleWorld\<lparr>files := (files staleWorld)(fileURI stripSlashes nativeProps := None)\<rparr>)"
    using t fs info e by blast
  show ?thesis
    using present old g del s info e n by blast
qed

text \<open>
  C3. On native the file is missing, the download is answered with 404, and the instance
  is torn down while \<open>downloadAsync\<close> is awaited. \<open>handleSuccessfulDownload\<close> returns at its
  mounted check, before the \<open>deleteAsync\<close> that removes a failed download: the error body
  stays in the cache file and no fallback URI is set. A later resolve of the same key by a
  new instance finds the file, issues no request and keeps the file path as \<open>imgUri\<close>. The
  same download with the instance still mounted deletes the file.
\<close>

theorem teardown_during_failed_download_keeps_file:
  "net exampleWorld ''https://x/gone.png'' = Response 404 (Some [4, 0, 4])
   \<and> files (snd (loadImageAsync stripSlashes (nativeProps\<lparr>uri := ''https://x/gone.png''\<rparr>)
        ((mountedComponent nativeProps)\<lparr>unmountAt := Some 1\<rparr>) exampleWorld)) ''/cache/k1.png''
       = Some ([4, 0, 4], 1000)
   \<and> imgUri (fst (loadImageAsync stripSlashes (nativeProps\<lparr>uri := ''https://x/gone.png''\<rparr>)
        ((mountedComponent nativeProps)\<lparr>unmountAt := Some 1\<rparr>) exampleWorld))
       = Some (FileUri ''/cache/k1.png'' None)
   \<and> fetches (snd (loadImageAsync stripSlashes (nativeProps\<lparr>uri := ''https://x/gone.png''\<rparr>)
        (mountedComponent nativeProps)
        (snd (loadImageAsync stripSlashes (nativeProps\<lparr>uri := ''https://x/gone.png''\<rparr>)
           ((mountedComponent nativeProps)\<lparr>unmountAt := Some 1\<rparr>) exampleWorld))))
       = [''https://x/gone.png'']
   \<and> imgUri (fst (loadImageAsync stripSlashes (nativeProps\<lparr>uri := ''https://x/gone.png''\<rparr>)
        (mountedComponent nativeProps)
        (snd (loadImageAsync stripSlashes (nativeProps\<lparr>uri := ''https://x/gone.png''\<rparr>)
           ((mountedComponent nativeProps)\<lparr>unmountAt := Some 1\<rparr>) exampleWorld))))
       = Some (FileUri ''/cache/k1.png'' None)
   \<and> files (snd (loadImageAsync stripSlashes (nativeProps\<lparr>uri := ''https://x/gone.png''\<rparr>)
        (mountedComponent nativeProps) exampleWorld)) ''/cache/k1.png'' = None"
  by (simp add: native_defs getInfoAsync_def shouldDownloadImage_def isImageExpired_def fileURI_def
        truthy_def suspend_def cleanup_def revokeIfBlob_def setters examples Let_def)

text \<open>
  C4. \<open>getImage\<close> awaits \<open>init\<close> outside any handler: when \<open>indexedDB.open\<close> fails, the
  promise \<open>getImage\<close> returns is rejected with that error; it does not resolve to \<open>null\<close>.
\<close>

theorem getImage_rejects_when_open_fails:
  "getImage stripSlashes (exampleWorld\<lparr>openFails := True\<rparr>) ''k/1''
     = (Inl OpenFailed, exampleWorld\<lparr>openFails := True\<rparr>)"
  by (simp add: getImage_def init_def exampleWorld_def)

text \<open>
  C5. After \<open>saveImage\<close> has stored \<open>payload\<close> under \<open>k\<close> in a store that opens and writes, a
  \<open>getImage\<close> of \<open>k\<close> in any later world that holds the same records and opens and reads
  returns a handle whose bytes are \<open>payload\<close>, provided \<open>expiresIn\<close> was not given or the
  seconds elapsed since the save do not exceed it.
\<close>

theorem put_then_get_roundtrip:
  assumes put: "db w \<or> \<not> openFails w" "\<not> txThrows w" "\<not> putFails w"
    and later: "store w' = store (snd (saveImage san w k payload e))"
    and get: "db w' \<or> \<not> openFails w'" "\<not> txThrows w'" "\<not> getFails w'"
    and within: "e = None \<or> (clock w' - clock w) / 1000 \<le> the e"
  shows "\<exists>h. fst (getImage san w' k) = Inr (Some h)
           \<and> bytesOf (snd (getImage san w' k)) h = Some payload"
proof -
  let ?data = "\<lparr>key = san k, blob = payload, timestamp = clock w, expiresIn = e\<rparr>"
  have present: "store w' (san k) = Some ?data"
    using later by (simp add: saveImage_ready[OF put])
  have fresh: "\<not> entryExpired ?data (clock w')"
    using within by (auto simp: entryExpired_def truthy_def)
  show ?thesis
    by (simp add: getImage_ready[OF get] present fresh bytesOf_def)
qed

theorem put_then_get_roundtrip_witness:
  "(db exampleWorld \<or> \<not> openFails exampleWorld) \<and> \<not> txThrows exampleWorld \<and> \<not> putFails exampleWorld
   \<and> \<not> getFails exampleWorld
   \<and> (Some (60::real) = None \<or> (1030000 - clock exampleWorld) / 1000 \<le> the (Some (60::real)))
   \<and> (\<exists>h. fst (getImage stripSlashes
                ((snd (saveImage stripSlashes exampleWorld ''k/1'' [1, 2, 3] (Some 60)))\<lparr>clock := 1030000\<rparr>) ''k/1'')
              = Inr (Some h)
         \<and> bytesOf (snd (getImage stripSlashes
                ((snd (saveImage stripSlashes exampleWorld ''k/1'' [1, 2, 3] (Some 60)))\<lparr>clock := 1030000\<rparr>) ''k/1'')) h
              = Some [1, 2, 3])"
proof -
  let ?w1 = "snd (saveImage stripSlashes exampleWorld ''k/1'' [1, 2, 3] (Some 60))"
  have put: "db exampleWorld \<or> \<not> openFails exampleWorld" "\<not> txThrows exampleWorld" "\<not> putFails exampleWorld"
    by (simp_all add: exampleWorld_def)
  have w1: "?w1 = exampleWorld\<lparr>db := True,
        store := (store exampleWorld)(stripSlashes ''k/1'' \<mapsto>
          \<lparr>key = stripSlashes ''k/1'', blob = [1, 2, 3], timestamp = clock exampleWorld, expiresIn = Some 60\<rparr>),
        urls := (urls exampleWorld)(nextUrl exampleWorld \<mapsto> [1, 2, 3]), nextUrl := Suc (nextUrl exampleWorld)\<rparr>"
    by (simp add: saveImage_ready[OF put])
  have later: "store (?w1\<lparr>clock := 1030000\<rparr>) = store ?w1" by simp
  have get: "db (?w1\<lparr>clock := 1030000\<rparr>) \<or> \<not> openFails (?w1\<lparr>clock := 1030000\<rparr>)"
    "\<not> txThrows (?w1\<lparr>clock := 1030000\<rparr>)" "\<not> getFails (?w1\<lparr>clock := 1030000\<rparr>)"
    by (simp_all add: w1) (simp_all add: exampleWorld_def)
  have within: "Some (60::real) = None \<or> (clock (?w1\<lparr>clock := 1030000\<rparr>) - clock exampleWorld) / 1000 \<le> the (Some (60::real))"
    by (simp add: exampleWorld_def)
  from put_then_get_roundtrip[OF put later get within]
  show ?thesis
    using put get(3) within by (simp add: exampleWorld_def)
qed

text \<open>
  C6, as the claim states it, fails on native when the download is rejected (the device is
  offline): the error propagates to the \<open>catch\<close> of \<open>loadImageAsync\<close>, which sets \<open>hasError\<close>
  before it falls back to the original URI.
\<close>

theorem rejected_download_sets_error_flag:
  "net exampleWorld ''https://x/offline.png'' = NetworkError
   \<and> hasError (fst (loadImageAsync stripSlashes (nativeProps\<lparr>uri := ''https://x/offline.png''\<rparr>)
                    (mountedComponent nativeProps) exampleWorld))
   \<and> imgUri (fst (loadImageAsync stripSlashes (nativeProps\<lparr>uri := ''https://x/offline.png''\<rparr>)
                    (mountedComponent nativeProps) exampleWorld)) = Some (Uri ''https://x/offline.png'')"
  by (simp add: native_defs getInfoAsync_def shouldDownloadImage_def isImageExpired_def fileURI_def
        suspend_def setters examples Let_def)

text \<open>
  C6, amended. After a resolve, \<open>hasError\<close> is set exactly when the platform loader threw
  into the \<open>catch\<close> of \<open>loadImageAsync\<close>; besides that only the \<open>onError\<close> callback of the
  rendered image sets it, and only while the instance is mounted. A failure that the loader
  absorbs leaves \<open>hasError\<close> unset and gives a mounted instance the unmodified remote URI: on
  the web a rejected or not-ok request after a lookup that found no valid record, on native
  a download answered with a status other than 200. A native download that is rejected
  sets \<open>hasError\<close> and also gives the unmodified remote URI.
\<close>

theorem error_flag_after_resolve:
  "(hasError (fst (loadImageAsync san p c w)) \<longleftrightarrow>
      (\<exists>e. fst (if platformOS p = Web
                then loadImageWeb san p (setHasError False (setIsLoading True c)) w
                else loadImageNative san p (setHasError False (setIsLoading True c)) w) = Inl e))
   \<and> (hasError (onError c) \<longleftrightarrow> componentIsMounted c \<or> hasError c)
   \<and> (platformOS p = Web \<and> componentIsMounted c \<and> unmountAt c = None
       \<and> (db w \<or> \<not> openFails w) \<and> \<not> txThrows w \<and> \<not> getFails w
       \<and> (\<forall>data. store w (san (cacheKey p)) = Some data \<longrightarrow> entryExpired data (clock w))
       \<and> fetchFails w (uri p)
      \<longrightarrow> \<not> hasError (fst (loadImageAsync san p c w))
        \<and> imgUri (fst (loadImageAsync san p c w)) = Some (Uri (uri p)))
   \<and> (platformOS p \<noteq> Web \<and> componentIsMounted c \<and> unmountAt c = None \<and> \<not> fsThrows w
       \<and> getInfoAsync w (fileURI san p) = Inr md \<and> shouldDownloadImage p w md
       \<and> net w (uri p) = Response s (Some body) \<and> s \<noteq> 200
      \<longrightarrow> \<not> hasError (fst (loadImageAsync san p c w))
        \<and> imgUri (fst (loadImageAsync san p c w)) = Some (Uri (uri p)))
   \<and> (platformOS p \<noteq> Web \<and> componentIsMounted c \<and> unmountAt c = None \<and> \<not> fsThrows w
       \<and> getInfoAsync w (fileURI san p) = Inr md \<and> shouldDownloadImage p w md
       \<and> net w (uri p) = NetworkError
      \<longrightarrow> hasError (fst (loadImageAsync san p c w))
        \<and> imgUri (fst (loadImageAsync san p c w)) = Some (Uri (uri p)))"
proof (intro conjI impI)
  show "hasError (fst (loadImageAsync san p c w)) \<longleftrightarrow>
      (\<exists>e. fst (if platformOS p = Web
                then loadImageWeb san p (setHasError False (setIsLoading True c)) w
                else loadImageNative san p (setHasError False (setIsLoading True c)) w) = Inl e)"
    by (rule loadImageAsync_hasError)
  show "hasError (onError c) \<longleftrightarrow> componentIsMounted c \<or> hasError c"
    by (simp add: onError_def setHasError_def)
next
  assume h: "platformOS p = Web \<and> componentIsMounted c \<and> unmountAt c = None
       \<and> (db w \<or> \<not> openFails w) \<and> \<not> txThrows w \<and> \<not> getFails w
       \<and> (\<forall>data. store w (san (cacheKey p)) = Some data \<longrightarrow> entryExpired data (clock w))
       \<and> fetchFails w (uri p)"
  then have r: "loadImageAsync san p c w =
      (c\<lparr>imgUri := Some (Uri (uri p)), isLoading := False, hasError := False,
              awaits := Suc (Suc (awaits c)),
              trace := trace c @ [SetIsLoading True, SetHasError False, SetImgUri (Uri (uri p)),
                 AnimateImageLoad, SetIsLoading False]\<rparr>,
       (snd (getImage san w (cacheKey p)))\<lparr>fetches := fetches w @ [uri p]\<rparr>)"
    by (intro web_fallback) simp_all
  show "\<not> hasError (fst (loadImageAsync san p c w))" by (simp add: r)
  show "imgUri (fst (loadImageAsync san p c w)) = Some (Uri (uri p))" by (simp add: r)
next
  assume h: "platformOS p \<noteq> Web \<and> componentIsMounted c \<and> unmountAt c = None \<and> \<not> fsThrows w
       \<and> getInfoAsync w (fileURI san p) = Inr md \<and> shouldDownloadImage p w md
       \<and> net w (uri p) = Response s (Some body) \<and> s \<noteq> 200"
  then show "\<not> hasError (fst (loadImageAsync san p c w))"
    by (intro native_status_not_200(4)[where md=md and s=s and body=body]) simp_all
  from h show "imgUri (fst (loadImageAsync san p c w)) = Some (Uri (uri p))"
    by (intro native_status_not_200(1)[where md=md and s=s and body=body]) simp_all
next
  assume h: "platformOS p \<noteq> Web \<and> componentIsMounted c \<and> unmountAt c = None \<and> \<not> fsThrows w
       \<and> getInfoAsync w (fileURI san p) = Inr md \<and> shouldDownloadImage p w md
       \<and> net w (uri p) = NetworkError"
  then show "hasError (fst (loadImageAsync san p c w))"
    by (intro native_download_rejected(2)[where md=md]) simp_all
  from h show "imgUri (fst (loadImageAsync san p c w)) = Some (Uri (uri p))"
    by (intro native_download_rejected(1)[where md=md]) simp_all
qed

theorem error_flag_after_resolve_witness:
  "fetchFails staleWorld ''https://x/gone.png''
   \<and> \<not> hasError (fst (loadImageAsync stripSlashes (exampleProps\<lparr>uri := ''https://x/gone.png''\<rparr>)
                      (mountedComponent exampleProps) staleWorld))
   \<and> imgUri (fst (loadImageAsync stripSlashes (exampleProps\<lparr>uri := ''https://x/gone.png''\<rparr>)
                 (mountedComponent exampleProps) staleWorld)) = Some (Uri ''https://x/gone.png'')
   \<and> net exampleWorld ''https://x/gone.png'' = Response 404 (Some [4, 0, 4])
   \<and> \<not> hasError (fst (loadImageAsync stripSlashes (nativeProps\<lparr>uri := ''https://x/gone.png''\<rparr>)
                      (mountedComponent nativeProps) exampleWorld))
   \<and> imgUri (fst (loadImageAsync stripSlashes (nativeProps\<lparr>uri := ''https://x/gone.png''\<rparr>)
                 (mountedComponent nativeProps) exampleWorld)) = Some (Uri ''https://x/gone.png'')
   \<and> net exampleWorld ''https://x/offline.png'' = NetworkError
   \<and> hasError (fst (loadImageAsync stripSlashes (nativeProps\<lparr>uri := ''https://x/offline.png''\<rparr>)
                    (mountedComponent nativeProps) exampleWorld))
   \<and> componentIsMounted (mountedComponent exampleProps)
   \<and> hasError (onError (mountedComponent exampleProps))"
proof -
  let ?p = "exampleProps\<lparr>uri := ''https://x/gone.png''\<rparr>"
  let ?q = "nativeProps\<lparr>uri := ''https://x/gone.png''\<rparr>"
  let ?o = "nativeProps\<lparr>uri := ''https://x/offline.png''\<rparr>"
  let ?md = "\<lparr>exists = False, fsize = 0, modificationTime = 0\<rparr>"
  have f: "fetchFails staleWorld ''https://x/gone.png''"
    by (simp add: fetchFails_def ok_def examples)
  have web: "platformOS ?p = Web \<and> componentIsMounted (mountedComponent exampleProps)
       \<and> unmountAt (mountedComponent exampleProps) = None
       \<and> (db staleWorld \<or> \<not> openFails staleWorld) \<and> \<not> txThrows staleWorld \<and> \<not> getFails staleWorld
       \<and> (\<forall>data. store staleWorld (stripSlashes (cacheKey ?p)) = Some data \<longrightarrow> entryExpired data (clock staleWorld))
       \<and> fetchFails staleWorld (uri ?p)"
    using f by (simp add: entryExpired_def truthy_def examples)
  have r: "net exampleWorld ''https://x/gone.png'' = Response 404 (Some [4, 0, 4])"
    "net exampleWorld ''https://x/offline.png'' = NetworkError"
    by (simp_all add: examples)
  have native: "platformOS ?q \<noteq> Web \<and> componentIsMounted (mountedComponent nativeProps)
       \<and> unmountAt (mountedComponent nativeProps) = None \<and> \<not> fsThrows exampleWorld
       \<and> getInfoAsync exampleWorld (fileURI stripSlashes ?q) = Inr ?md \<and> shouldDownloadImage ?q exampleWorld ?md
       \<and> net exampleWorld (uri ?q) = Response 404 (Some [4, 0, 4]) \<and> (404::nat) \<noteq> 200"
    by (simp add: getInfoAsync_def shouldDownloadImage_def fileURI_def examples)
  have offline: "platformOS ?o \<noteq> Web \<and> componentIsMounted (mountedComponent nativeProps)
       \<and> unmountAt (mountedComponent nativeProps) = None \<and> \<not> fsThrows exampleWorld
       \<and> getInfoAsync exampleWorld (fileURI stripSlashes ?o) = Inr ?md \<and> shouldDownloadImage ?o exampleWorld ?md
       \<and> net exampleWorld (uri ?o) = NetworkError"
    by (simp add: getInfoAsync_def shouldDownloadImage_def fileURI_def examples)
  have uris: "uri ?p = ''https://x/gone.png''" "uri ?q = ''https://x/gone.png''"
    by (simp_all add: examples)
  have a: "\<not> hasError (fst (loadImageAsync stripSlashes ?p (mountedComponent exampleProps) staleWorld))
     \<and> imgUri (fst (loadImageAsync stripSlashes ?p (mountedComponent exampleProps) staleWorld)) = Some (Uri ''https://x/gone.png'')"
    using error_flag_after_resolve[of stripSlashes ?p "mountedComponent exampleProps" staleWorld] web
    unfolding uris by blast
  have b: "\<not> hasError (fst (loadImageAsync stripSlashes ?q (mountedComponent nativeProps) exampleWorld))
     \<and> imgUri (fst (loadImageAsync stripSlashes ?q (mountedComponent nativeProps) exampleWorld)) = Some (Uri ''https://x/gone.png'')"
    using error_flag_after_resolve[of stripSlashes ?q "mountedComponent nativeProps" exampleWorld ?md 404 "[4, 0, 4]"] native
    unfolding uris by blast
  have c: "hasError (fst (loadImageAsync stripSlashes ?o (mountedComponent nativeProps) exampleWorld))"
    using error_flag_after_resolve[of stripSlashes ?o "mountedComponent nativeProps" exampleWorld ?md] offline
    by blast
  have m: "componentIsMounted (mountedComponent exampleProps)"
    by (simp add: examples)
  have d: "hasError (onError (mountedComponent exampleProps))"
    using error_flag_after_resolve[of stripSlashes exampleProps "mountedComponent exampleProps" exampleWorld] m
    by blast
  show ?thesis
    using f a r b c m d by blast
qed

text \<open>
  C7, as the claim states it, fails on a file that is empty and a hundred seconds old, with
  \<open>expiresIn = 60\<close>: \<open>loadImageNative\<close> tests the expiry before it falls through to the miss,
  and handles the file as expired (\<open>handleExpiredImage\<close>: delete, then download), not as the
  miss (\<open>downloadImage\<close> at once).
\<close>

theorem empty_expired_file_handled_as_expired:
  "getInfoAsync oldEmptyFileWorld (fileURI stripSlashes nativeProps)
      = Inr \<lparr>exists = True, fsize = 0, modificationTime = 900\<rparr>
   \<and> isImageExpired nativeProps oldEmptyFileWorld \<lparr>exists = True, fsize = 0, modificationTime = 900\<rparr>
   \<and> loadImageNative stripSlashes nativeProps (mountedComponent nativeProps) oldEmptyFileWorld
        = handleExpiredImage stripSlashes nativeProps
            ((mountedComponent nativeProps)\<lparr>awaits := Suc 0\<rparr>) oldEmptyFileWorld
   \<and> loadImageNative stripSlashes nativeProps (mountedComponent nativeProps) oldEmptyFileWorld
        \<noteq> downloadImage stripSlashes nativeProps
            ((mountedComponent nativeProps)\<lparr>awaits := Suc 0\<rparr>) oldEmptyFileWorld"
  by (simp add: native_defs getInfoAsync_def shouldDownloadImage_def isImageExpired_def fileURI_def
        truthy_def suspend_def setters examples Let_def)

text \<open>
  C7, amended. On native a file that is missing or has zero bytes must be downloaded,
  whatever the clock and \<open>expiresIn\<close> say: \<open>shouldDownloadImage\<close> tests \<open>exists\<close> and the size
  before the expiry, and a mounted instance issues one network request for it. A missing
  file is never expired. In the dispatch of \<open>loadImageNative\<close> the expiry is tested first: a
  missing or empty file that is not expired is handled as the miss, by \<open>downloadImage\<close> at
  once; an empty file that is also expired is handled as expired, by \<open>handleExpiredImage\<close>,
  which deletes it and then downloads.
\<close>

theorem native_miss_requires_refetch:
  assumes miss: "\<not> exists md \<or> fsize md = 0"
  shows "shouldDownloadImage p w md
     \<and> (\<not> exists md \<longrightarrow> \<not> isImageExpired p w md)
     \<and> (platformOS p \<noteq> Web \<and> componentIsMounted c \<and> unmountAt c = None \<and> \<not> fsThrows w
         \<and> getInfoAsync w (fileURI san p) = Inr md
         \<longrightarrow> fetches (snd (loadImageAsync san p c w)) = fetches w @ [uri p])
     \<and> (unmountAt c = None \<and> getInfoAsync w (fileURI san p) = Inr md \<and> \<not> isImageExpired p w md
         \<longrightarrow> loadImageNative san p c w = downloadImage san p (c\<lparr>awaits := Suc (awaits c)\<rparr>) w)
     \<and> (unmountAt c = None \<and> getInfoAsync w (fileURI san p) = Inr md \<and> isImageExpired p w md
         \<longrightarrow> loadImageNative san p c w = handleExpiredImage san p (c\<lparr>awaits := Suc (awaits c)\<rparr>) w)"
proof (intro conjI impI)
  show s: "shouldDownloadImage p w md"
    using miss by (auto simp: shouldDownloadImage_def)
  show "\<not> isImageExpired p w md" if "\<not> exists md"
    using that by (simp add: isImageExpired_def)
  show "fetches (snd (loadImageAsync san p c w)) = fetches w @ [uri p]"
    if "platformOS p \<noteq> Web \<and> componentIsMounted c \<and> unmountAt c = None \<and> \<not> fsThrows w
         \<and> getInfoAsync w (fileURI san p) = Inr md"
    using that s by (intro native_needs_download_fetches_once[where md=md]) simp_all
  show "loadImageNative san p c w = downloadImage san p (c\<lparr>awaits := Suc (awaits c)\<rparr>) w"
    if "unmountAt c = None \<and> getInfoAsync w (fileURI san p) = Inr md \<and> \<not> isImageExpired p w md"
    using that miss by (intro native_plain_miss[where md=md]) simp_all
  show "loadImageNative san p c w = handleExpiredImage san p (c\<lparr>awaits := Suc (awaits c)\<rparr>) w"
    if "unmountAt c = None \<and> getInfoAsync w (fileURI san p) = Inr md \<and> isImageExpired p w md"
    using that by (intro native_expired_dispatch[where md=md]) simp_all
qed

theorem native_miss_requires_refetch_witness:
  "getInfoAsync emptyFileWorld (fileURI stripSlashes nativeProps)
      = Inr \<lparr>exists = True, fsize = 0, modificationTime = 999\<rparr>
   \<and> \<not> isImageExpired nativeProps emptyFileWorld \<lparr>exists = True, fsize = 0, modificationTime = 999\<rparr>
   \<and> shouldDownloadImage nativeProps emptyFileWorld \<lparr>exists = True, fsize = 0, modificationTime = 999\<rparr>
   \<and> fetches (snd (loadImageAsync stripSlashes nativeProps (mountedComponent nativeProps) emptyFileWorld))
        = [''https://x/img.png'']
   \<and> loadImageNative stripSlashes nativeProps (mountedComponent nativeProps) emptyFileWorld
        = downloadImage stripSlashes nativeProps ((mountedComponent nativeProps)\<lparr>awaits := Suc 0\<rparr>) emptyFileWorld
   \<and> getInfoAsync exampleWorld (fileURI stripSlashes nativeProps)
      = Inr \<lparr>exists = False, fsize = 0, modificationTime = 0\<rparr>
   \<and> shouldDownloadImage nativeProps exampleWorld \<lparr>exists = False, fsize = 0, modificationTime = 0\<rparr>
   \<and> \<not> isImageExpired nativeProps exampleWorld \<lparr>exists = False, fsize = 0, modificationTime = 0\<rparr>
   \<and> fetches (snd (loadImageAsync stripSlashes nativeProps (mountedComponent nativeProps) exampleWorld))
        = [''https://x/img.png'']
   \<and> getInfoAsync oldEmptyFileWorld (fileURI stripSlashes nativeProps)
      = Inr \<lparr>exists = True, fsize = 0, modificationTime = 900\<rparr>
   \<and> isImageExpired nativeProps oldEmptyFileWorld \<lparr>exists = True, fsize = 0, modificationTime = 900\<rparr>
   \<and> shouldDownloadImage nativeProps oldEmptyFileWorld \<lparr>exists = True, fsize = 0, modificationTime = 900\<rparr>
   \<and> loadImageNative stripSlashes nativeProps (mountedComponent nativeProps) oldEmptyFileWorld
        = handleExpiredImage stripSlashes nativeProps ((mountedComponent nativeProps)\<lparr>awaits := Suc 0\<rparr>)
            oldEmptyFileWorld
   \<and> fetches (snd (loadImageAsync stripSlashes nativeProps (mountedComponent nativeProps) oldEmptyFileWorld))
        = [''https://x/img.png'']"
proof -
  let ?e = "\<lparr>exists = True, fsize = 0, modificationTime = 999\<rparr>"
  let ?n = "\<lparr>exists = False, fsize = 0, modificationTime = 0\<rparr>"
  let ?o = "\<lparr>exists = True, fsize = 0, modificationTime = 900\<rparr>"
  let ?c = "mountedComponent nativeProps"
  have me: "\<not> exists ?e \<or> fsize ?e = 0" by simp
  have mn: "\<not> exists ?n \<or> fsize ?n = 0" by simp
  have mo: "\<not> exists ?o \<or> fsize ?o = 0" by simp
  have ie: "getInfoAsync emptyFileWorld (fileURI stripSlashes nativeProps) = Inr ?e"
    by (simp add: getInfoAsync_def fileURI_def examples)
  have inn: "getInfoAsync exampleWorld (fileURI stripSlashes nativeProps) = Inr ?n"
    by (simp add: getInfoAsync_def fileURI_def examples)
  have io: "getInfoAsync oldEmptyFileWorld (fileURI stripSlashes nativeProps) = Inr ?o"
    by (simp add: getInfoAsync_def fileURI_def examples)
  have ne: "\<not> isImageExpired nativeProps emptyFileWorld ?e"
    by (simp add: isImageExpired_def examples)
  have eo: "isImageExpired nativeProps oldEmptyFileWorld ?o"
    by (simp add: isImageExpired_def truthy_def examples)
  have c: "platformOS nativeProps \<noteq> Web" "componentIsMounted ?c" "unmountAt ?c = None"
    "\<not> fsThrows emptyFileWorld" "\<not> fsThrows exampleWorld" "\<not> fsThrows oldEmptyFileWorld" "awaits ?c = 0"
    "fetches emptyFileWorld = []" "fetches exampleWorld = []" "fetches oldEmptyFileWorld = []"
    "uri nativeProps = ''https://x/img.png''"
    by (simp_all add: examples)
  note te = native_miss_requires_refetch[OF me, of nativeProps emptyFileWorld ?c stripSlashes]
  note tn = native_miss_requires_refetch[OF mn, of nativeProps exampleWorld ?c stripSlashes]
  note to = native_miss_requires_refetch[OF mo, of nativeProps oldEmptyFileWorld ?c stripSlashes]
  have a: "shouldDownloadImage nativeProps emptyFileWorld ?e" using te by blast
  have b: "fetches (snd (loadImageAsync stripSlashes nativeProps ?c emptyFileWorld)) = [''https://x/img.png'']"
    using te c ie by simp
  have d: "loadImageNative stripSlashes nativeProps ?c emptyFileWorld
        = downloadImage stripSlashes nativeProps (?c\<lparr>awaits := Suc 0\<rparr>) emptyFileWorld"
    using te c ie ne by simp
  have e: "shouldDownloadImage nativeProps exampleWorld ?n" using tn by blast
  have f: "\<not> isImageExpired nativeProps exampleWorld ?n" using tn by simp
  have g: "fetches (snd (loadImageAsync stripSlashes nativeProps ?c exampleWorld)) = [''https://x/img.png'']"
    using tn c inn by simp
  have h: "shouldDownloadImage nativeProps oldEmptyFileWorld ?o" using to by blast
  have k: "loadImageNative stripSlashes nativeProps ?c oldEmptyFileWorld
        = handleExpiredImage stripSlashes nativeProps (?c\<lparr>awaits := Suc 0\<rparr>) oldEmptyFileWorld"
    using to c io eo by simp
  have l: "fetches (snd (loadImageAsync stripSlashes nativeProps ?c oldEmptyFileWorld)) = [''https://x/img.png'']"
    using to c io by simp
  show ?thesis
    using ie ne a b d inn e f g io eo h k l by blast
qed

text \<open>
  C8. The cached record is there; the instance is torn down while the effect's resolve
  awaits \<open>getImage\<close>. The continuation skips \<open>setImgUri\<close>, but the \<open>finally\<close> of
  \<open>loadImageAsync\<close> still calls \<open>setIsLoading(false)\<close>, after the teardown; the object URL
  that \<open>getImage\<close> made stays live. And when the teardown comes after the resolve, the
  cleanup, which reads the \<open>imgUri\<close> of the render in which the effect ran, revokes nothing:
  the object URL the instance holds stays live.
\<close>

theorem teardown_in_flight_still_sets_state:
  "trace (fst (effect stripSlashes exampleProps False
                 (initialComponent stripSlashes exampleProps None (Some 0)) seededWorld))
     = [SetIsLoading True, SetHasError False, Teardown, SetIsLoading False]
   \<and> urls (snd (effect stripSlashes exampleProps False
                 (initialComponent stripSlashes exampleProps None (Some 0)) seededWorld)) 0 = Some [7, 8, 9]
   \<and> imgUri (fst (effect stripSlashes exampleProps False
                 (initialComponent stripSlashes exampleProps None None) seededWorld)) = Some (ObjectURL 0)
   \<and> trace (fst (cleanup Web
        (fst (effect stripSlashes exampleProps False (initialComponent stripSlashes exampleProps None None) seededWorld))
        (snd (effect stripSlashes exampleProps False (initialComponent stripSlashes exampleProps None None) seededWorld))))
     = [SetIsLoading True, SetHasError False, SetImgUri (ObjectURL 0), AnimateImageLoad,
        SetIsLoading False, Teardown]
   \<and> urls (snd (cleanup Web
        (fst (effect stripSlashes exampleProps False (initialComponent stripSlashes exampleProps None None) seededWorld))
        (snd (effect stripSlashes exampleProps False (initialComponent stripSlashes exampleProps None None) seededWorld)))) 0
     = Some [7, 8, 9]"
  by (simp add: effect_def shouldStartLoad_def web_defs setters truthy_def examples Let_def)

text \<open>
  C9. When lazy observation is disabled or the platform is not the web, the hook's effect
  sets \<open>isIntersecting\<close> to true, whatever the state and whether or not there is a target
  element; with it the component's effect starts the load even when \<open>lazy\<close> is set.
\<close>

theorem native_visibility_forced:
  "\<not> enabled \<or> os \<noteq> Web \<Longrightarrow>
   isIntersecting (useIntersectionObserver_effect enabled os hasTarget s)
   \<and> shouldStartLoad isLazy (isIntersecting (useIntersectionObserver_effect enabled os hasTarget s))"
  by (auto simp: useIntersectionObserver_effect_def shouldStartLoad_def)

theorem native_visibility_forced_witness:
  "Ios \<noteq> Web
   \<and> \<not> isIntersecting initialObserver
   \<and> isIntersecting (useIntersectionObserver_effect True Ios True initialObserver)
   \<and> shouldStartLoad True (isIntersecting (useIntersectionObserver_effect True Ios True initialObserver))"
proof -
  have h: "\<not> True \<or> Ios \<noteq> Web" by simp
  have n: "\<not> isIntersecting initialObserver" by (simp add: initialObserver_def)
  show ?thesis
    using n native_visibility_forced[OF h, of True initialObserver True]
    by blast
qed

text \<open>
  C10. \<open>downloadAndCache\<close> never rejects: a rejected request, a body that cannot be read and
  an error thrown by \<open>saveImage\<close> (a failed \<open>init\<close>, a transaction that throws) all end in
  the \<open>catch\<close> and give \<open>null\<close>.
\<close>

theorem downloadAndCache_never_raises:
  "(\<exists>r. fst (downloadAndCache san w u k e) = Inr r)
   \<and> ((net w u = NetworkError
        \<or> (\<exists>s. net w u = Response s None \<and> ok s)
        \<or> (\<exists>s b err. net w u = Response s (Some b) \<and> ok s
              \<and> fst (saveImage san (w\<lparr>fetches := fetches w @ [u]\<rparr>) k b e) = Inl err))
       \<longrightarrow> fst (downloadAndCache san w u k e) = Inr None)"
  by (auto simp: downloadAndCache_def downloadAndCache_try_def Let_def
      split: prod.splits sum.splits net_result.splits option.splits)

theorem downloadAndCache_never_raises_witness:
  "exampleNet ''https://x/img.png'' = Response 200 (Some [1, 2, 3]) \<and> ok 200
   \<and> fst (saveImage stripSlashes (exampleWorld\<lparr>openFails := True, fetches := [''https://x/img.png'']\<rparr>)
        ''k/1'' [1, 2, 3] (Some 60)) = Inl OpenFailed
   \<and> fst (downloadAndCache stripSlashes (exampleWorld\<lparr>openFails := True\<rparr>) ''https://x/img.png'' ''k/1'' (Some 60))
       = Inr None"
proof -
  have a: "net (exampleWorld\<lparr>openFails := True\<rparr>) ''https://x/img.png'' = Response 200 (Some [1, 2, 3])"
    by (simp add: exampleWorld_def exampleNet_def)
  have b: "ok 200" by (simp add: ok_def)
  have c: "fst (saveImage stripSlashes ((exampleWorld\<lparr>openFails := True\<rparr>)
               \<lparr>fetches := fetches (exampleWorld\<lparr>openFails := True\<rparr>) @ [''https://x/img.png'']\<rparr>)
             ''k/1'' [1, 2, 3] (Some 60)) = Inl OpenFailed"
    by (simp add: saveImage_def init_def exampleWorld_def)
  have d: "fst (downloadAndCache stripSlashes (exampleWorld\<lparr>openFails := True\<rparr>) ''https://x/img.png'' ''k/1'' (Some 60))
       = Inr None"
    using downloadAndCache_never_raises[of stripSlashes "exampleWorld\<lparr>openFails := True\<rparr>"
        "''https://x/img.png''" "''k/1''" "Some 60"] a b c
    by blast
  show ?thesis
    using a b c d by (simp add: exampleWorld_def)
qed

end
